theory Spec2Isabelle
  imports Complex_Main "HOL-Library.AList" "HOL-Library.Product_Lexorder"
begin

section \<open>Values: what a cell of a pandas column holds\<close>

text \<open>
  Every number the scripts compute with is a float64 held in a pandas Series. The model
  keeps the three special values a float can take next to the finite ones: \<open>NaN\<close> (pandas'
  missing value, produced by \<open>rolling\<close>, \<open>shift\<close>, \<open>pct_change\<close> and \<open>reindex\<close>) and the
  two infinities (produced by a division by zero, which numpy does not raise on).
  Finite values are exact reals: rounding, overflow to infinity and the sign of zero are
  outside the model.
\<close>

datatype fl = Fin real | PInf | NInf | NaN

datatype error =
  KeyError | ValueError | IndexError | ZeroDivisionError | InvalidIndexError | AttributeError

fun is_nan :: "fl \<Rightarrow> bool" where
  "is_nan NaN = True"
| "is_nan _ = False"

fun signed_inf :: "real \<Rightarrow> fl" where
  "signed_inf s = (if s = 0 then NaN else if 0 < s then PInf else NInf)"

fun sign_of :: "fl \<Rightarrow> real" where
  "sign_of (Fin a) = sgn a"
| "sign_of PInf = 1"
| "sign_of NInf = - 1"
| "sign_of NaN = 0"

fun fl_neg :: "fl \<Rightarrow> fl" where
  "fl_neg (Fin a) = Fin (- a)"
| "fl_neg PInf = NInf"
| "fl_neg NInf = PInf"
| "fl_neg NaN = NaN"

fun fl_add :: "fl \<Rightarrow> fl \<Rightarrow> fl" where
  "fl_add (Fin a) (Fin b) = Fin (a + b)"
| "fl_add NaN _ = NaN"
| "fl_add _ NaN = NaN"
| "fl_add PInf NInf = NaN"
| "fl_add NInf PInf = NaN"
| "fl_add PInf _ = PInf"
| "fl_add _ PInf = PInf"
| "fl_add NInf _ = NInf"
| "fl_add _ NInf = NInf"

definition fl_sub :: "fl \<Rightarrow> fl \<Rightarrow> fl" where
  "fl_sub x y = fl_add x (fl_neg y)"

fun fl_mul :: "fl \<Rightarrow> fl \<Rightarrow> fl" where
  "fl_mul (Fin a) (Fin b) = Fin (a * b)"
| "fl_mul NaN _ = NaN"
| "fl_mul _ NaN = NaN"
| "fl_mul x y = signed_inf (sign_of x * sign_of y)"

text \<open>
  Division follows numpy: a finite value over zero is an infinity of the numerator's sign,
  zero over zero is \<open>NaN\<close>, and nothing raises.
\<close>

fun fl_div :: "fl \<Rightarrow> fl \<Rightarrow> fl" where
  "fl_div (Fin a) (Fin b) = (if b = 0 then signed_inf a else Fin (a / b))"
| "fl_div NaN _ = NaN"
| "fl_div _ NaN = NaN"
| "fl_div (Fin a) _ = Fin 0"
| "fl_div x (Fin b) = signed_inf (sign_of x * (if b < 0 then - 1 else 1))"
| "fl_div _ _ = NaN"

fun fl_sqrt :: "fl \<Rightarrow> fl" where
  "fl_sqrt (Fin a) = (if a < 0 then NaN else Fin (sqrt a))"
| "fl_sqrt PInf = PInf"
| "fl_sqrt NInf = NaN"
| "fl_sqrt NaN = NaN"

text \<open>Comparisons with \<open>NaN\<close> are false, as in numpy.\<close>

fun fl_less :: "fl \<Rightarrow> fl \<Rightarrow> bool" where
  "fl_less (Fin a) (Fin b) = (a < b)"
| "fl_less NaN _ = False"
| "fl_less _ NaN = False"
| "fl_less _ NInf = False"
| "fl_less PInf _ = False"
| "fl_less _ _ = True"

definition fl_gt :: "fl \<Rightarrow> fl \<Rightarrow> bool" where
  "fl_gt x y = fl_less y x"

fun fl_le :: "fl \<Rightarrow> fl \<Rightarrow> bool" where
  "fl_le NaN _ = False"
| "fl_le _ NaN = False"
| "fl_le x y = (\<not> fl_less y x)"


definition fl_max :: "fl \<Rightarrow> fl \<Rightarrow> fl" where
  "fl_max x y = (if fl_less x y then y else x)"

definition fl_min :: "fl \<Rightarrow> fl \<Rightarrow> fl" where
  "fl_min x y = (if fl_less y x then y else x)"

section \<open>Column operations of pandas\<close>

text \<open>\<open>Series.fillna(v)\<close>: every missing cell becomes \<open>v\<close>.\<close>

definition fillna :: "fl \<Rightarrow> fl list \<Rightarrow> fl list" where
  "fillna v xs = map (\<lambda>x. if is_nan x then v else x) xs"

text \<open>\<open>Series.dropna()\<close>, on the values.\<close>

definition dropna :: "fl list \<Rightarrow> fl list" where
  "dropna xs = filter (\<lambda>x. \<not> is_nan x) xs"

text \<open>\<open>Series.shift(1)\<close>: a missing first cell, the last value falls off.\<close>

definition shift1 :: "fl list \<Rightarrow> fl list" where
  "shift1 xs = (if xs = [] then [] else NaN # butlast xs)"

text \<open>
  \<open>Series.pct_change()\<close> on a price column: \<open>close[t] / close[t-1] - 1\<close>, the first cell
  missing. Where a close is missing inside the column, versions of pandas differ on
  carrying the previous close forward first; the model does not, and the properties below
  are stated for columns of present closes.
\<close>

definition pct_change :: "fl list \<Rightarrow> fl list" where
  "pct_change xs = map2 (\<lambda>x p. fl_sub (fl_div x p) (Fin 1)) xs (shift1 xs)"

text \<open>
  \<open>Series.cumprod()\<close> and \<open>Series.cummax()\<close> skip missing cells: the cell stays missing
  and the running value is carried over it.
\<close>

fun cumprod_from :: "fl \<Rightarrow> fl list \<Rightarrow> fl list" where
  "cumprod_from acc [] = []"
| "cumprod_from acc (x # xs) =
     (if is_nan x then NaN # cumprod_from acc xs
      else fl_mul acc x # cumprod_from (fl_mul acc x) xs)"

definition cumprod :: "fl list \<Rightarrow> fl list" where
  "cumprod xs = cumprod_from (Fin 1) xs"

fun cummax_from :: "fl \<Rightarrow> fl list \<Rightarrow> fl list" where
  "cummax_from acc [] = []"
| "cummax_from acc (x # xs) =
     (if is_nan x then NaN # cummax_from acc xs
      else fl_max acc x # cummax_from (fl_max acc x) xs)"

definition cummax :: "fl list \<Rightarrow> fl list" where
  "cummax xs = cummax_from NInf xs"

text \<open>\<open>Series.min()\<close>, \<open>sum\<close>, \<open>mean()\<close> and \<open>std()\<close> (sample deviation, \<open>ddof = 1\<close>) skip
  missing cells; on no cell at all \<open>min\<close> and \<open>mean\<close> are missing, and \<open>std\<close> is missing on
  fewer than two.\<close>

definition fl_sum :: "fl list \<Rightarrow> fl" where
  "fl_sum xs = foldl fl_add (Fin 0) xs"

definition series_min :: "fl list \<Rightarrow> fl" where
  "series_min xs = (case dropna xs of [] \<Rightarrow> NaN | y # ys \<Rightarrow> foldl fl_min y ys)"

definition series_mean :: "fl list \<Rightarrow> fl" where
  "series_mean xs = (let ys = dropna xs in
     if ys = [] then NaN else fl_div (fl_sum ys) (Fin (real (length ys))))"

definition series_std :: "fl list \<Rightarrow> fl" where
  "series_std xs = (let ys = dropna xs; n = length ys in
     if n \<le> 1 then NaN
     else (let avg = fl_div (fl_sum ys) (Fin (real n));
               sqr = map (\<lambda>y. fl_mul (fl_sub avg y) (fl_sub avg y)) ys
           in fl_sqrt (fl_div (fl_sum sqr) (Fin (real (n - 1))))))"

section \<open>Performance metrics (qqq_analysis.py)\<close>

text \<open>The two lines of \<open>max_drawdown\<close> before its \<open>return\<close>: the drawdown series.\<close>

definition drawdown :: "fl list \<Rightarrow> fl list" where
  "drawdown equity =
     (let rolling_max = cummax equity
      in map2 (\<lambda>e m. fl_sub (fl_div e m) (Fin 1)) equity rolling_max)"

definition max_drawdown :: "fl list \<Rightarrow> fl" where
  "max_drawdown equity = series_min (drawdown equity)"

text \<open>The growth curve \<open>(1 + R).cumprod()\<close> that both scripts scale by the initial capital.\<close>

definition growth_curve :: "fl list \<Rightarrow> fl list" where
  "growth_curve r = cumprod (map (\<lambda>x. fl_add (Fin 1) x) r)"

definition equity_curve :: "fl list \<Rightarrow> fl \<Rightarrow> fl list" where
  "equity_curve r capital = map (\<lambda>x. fl_mul x capital) (growth_curve r)"

text \<open>A series never falls from one date to the next.\<close>

fun non_decreasing :: "fl list \<Rightarrow> bool" where
  "non_decreasing (x # y # zs) = (fl_le x y \<and> non_decreasing (y # zs))"
| "non_decreasing _ = True"

fun all_nonneg :: "fl list \<Rightarrow> bool" where
  "all_nonneg [] = True"
| "all_nonneg (x # xs) = (fl_le (Fin 0) x \<and> all_nonneg xs)"


definition sharpe_ratio :: "fl list \<Rightarrow> real \<Rightarrow> nat \<Rightarrow> error + fl" where
  "sharpe_ratio returns rf periods_per_year =
     (if periods_per_year = 0 then Inl ZeroDivisionError
      else (let excess_return = map (\<lambda>x. fl_sub x (Fin (rf / real periods_per_year))) returns
            in Inr (fl_mul (fl_div (series_mean excess_return) (series_std excess_return))
                      (Fin (sqrt (real periods_per_year))))))"

section \<open>Performance summary (qqq_ta_momentum_compare.py)\<close>

text \<open>
  \<open>summarize_performance\<close> prints what it computes; the model returns the printed numbers.
  \<open>equity.iloc[-1]\<close> raises \<open>IndexError\<close> on an empty series.
\<close>

record summary =
  final_equity :: fl
  total_return :: fl
  max_dd :: fl
  vol_ann :: fl
  sharpe :: fl

definition summarize_performance :: "fl list \<Rightarrow> error + summary" where
  "summarize_performance daily_ret =
     (let initial_equity = Fin 100000;
          equity = equity_curve daily_ret initial_equity
      in if equity = [] then Inl IndexError
         else (let total_return = fl_sub (fl_div (last equity) initial_equity) (Fin 1);
                   roll_max = cummax equity;
                   drawdown = map2 (\<lambda>e m. fl_sub (fl_div e m) (Fin 1)) equity roll_max;
                   max_dd = series_min drawdown;
                   vol_ann = fl_mul (series_std daily_ret) (Fin (sqrt 252));
                   sharpe = (if fl_gt (series_std daily_ret) (Fin 0)
                             then fl_mul (fl_div (series_mean daily_ret) (series_std daily_ret))
                                    (Fin (sqrt 252))
                             else NaN)
               in Inr \<lparr>final_equity = last equity, total_return = total_return,
                        max_dd = max_dd, vol_ann = vol_ann, sharpe = sharpe\<rparr>))"

section \<open>Tables and series\<close>

text \<open>
  A trading date is (year, month, day), ordered lexicographically. A Series is its index
  with its values; a DataFrame is an index and named columns, in insertion order.
  \<open>df[c]\<close> raises \<open>KeyError\<close> on a column that is not there; \<open>df[c] = v\<close> replaces the
  column or appends it.
\<close>

type_synonym date = "nat \<times> nat \<times> nat"

type_synonym series = "(date \<times> fl) list"

record frame =
  index :: "date list"
  columns :: "(string \<times> fl list) list"

definition ebind :: "error + 'a \<Rightarrow> ('a \<Rightarrow> error + 'b) \<Rightarrow> error + 'b" where
  "ebind r f = (case r of Inl e \<Rightarrow> Inl e | Inr v \<Rightarrow> f v)"

definition getitem :: "frame \<Rightarrow> string \<Rightarrow> error + fl list" where
  "getitem df c = (case map_of (columns df) c of None \<Rightarrow> Inl KeyError | Some v \<Rightarrow> Inr v)"

definition setitem :: "frame \<Rightarrow> string \<Rightarrow> fl list \<Rightarrow> frame" where
  "setitem df c v = df\<lparr>columns := AList.update c v (columns df)\<rparr>"

definition on_values :: "(fl list \<Rightarrow> fl list) \<Rightarrow> series \<Rightarrow> series" where
  "on_values f s = zip (map fst s) (f (map snd s))"

text \<open>
  \<open>Series.reindex(target)\<close>: an identical index gives a copy; otherwise the series must
  have unique labels (pandas raises \<open>ValueError\<close> on duplicates), and every target date
  takes the series' value there, or is missing.
\<close>

definition lookup :: "series \<Rightarrow> date \<Rightarrow> fl" where
  "lookup s d = (case map_of s d of None \<Rightarrow> NaN | Some v \<Rightarrow> v)"

definition reindex :: "series \<Rightarrow> date list \<Rightarrow> error + series" where
  "reindex s target =
     (if map fst s = target then Inr s
      else if \<not> distinct (map fst s) then Inl ValueError
      else Inr (map (\<lambda>d. (d, lookup s d)) target))"

section \<open>Technical indicators\<close>

text \<open>
  \<open>Series.rolling(w).mean()\<close>: the window at row \<open>i\<close> holds the rows \<open>i - w + 1 .. i\<close> that
  exist; with fewer than \<open>w\<close> present values in it (\<open>min_periods\<close> defaults to the window)
  the mean is missing. The mean of a full window is its sum over \<open>w\<close>; the running-sum
  arithmetic of pandas agrees with it on finite closes.
\<close>

definition window_mean :: "nat \<Rightarrow> fl list \<Rightarrow> fl" where
  "window_mean w win =
     (if length (dropna win) < w then NaN else fl_div (fl_sum win) (Fin (real w)))"

definition rolling_mean :: "nat \<Rightarrow> fl list \<Rightarrow> fl list" where
  "rolling_mean w xs =
     map (\<lambda>i. window_mean w (drop (Suc i - w) (take (Suc i) xs))) [0..<length xs]"

text \<open>The column name \<open>f"ma{w}"\<close>.\<close>

definition digit_char :: "nat \<Rightarrow> char" where
  "digit_char d = char_of (48 + d)"

function string_of_nat :: "nat \<Rightarrow> string" where
  "string_of_nat n =
     (if n < 10 then [digit_char n] else string_of_nat (n div 10) @ [digit_char (n mod 10)])"
  by pat_completeness auto
termination
  by (relation "measure id") auto

declare string_of_nat.simps [simp del]

definition ma_name :: "nat \<Rightarrow> string" where
  "ma_name w = ''ma'' @ string_of_nat w"

text \<open>\<open>pd.to_numeric(col, errors="coerce")\<close> on a column that is numeric already.\<close>

definition to_numeric :: "fl list \<Rightarrow> fl list" where
  "to_numeric xs = xs"

definition add_ma :: "frame \<Rightarrow> nat list \<Rightarrow> error + frame" where
  "add_ma df windows =
     (if ''close'' \<notin> set (map fst (columns df)) then Inl ValueError
      else ebind (getitem df ''close'') (\<lambda>close.
        let df = setitem df ''close'' (to_numeric close)
        in fold (\<lambda>w r. ebind r (\<lambda>df. ebind (getitem df ''close'') (\<lambda>close.
                   Inr (setitem df (ma_name w) (rolling_mean w close)))))
             windows (Inr df)))"

section \<open>Signals and strategy returns\<close>

text \<open>\<open>(a > b).astype(int)\<close> on two columns of one table.\<close>

definition above :: "fl list \<Rightarrow> fl list \<Rightarrow> fl list" where
  "above a b = map2 (\<lambda>x y. if fl_gt x y then Fin 1 else Fin 0) a b"


text \<open>
  \<open>compute_strategy_returns\<close>. After the reindexing both factors carry the index of
  \<open>ret\<close>, so their aligned product is the product row by row.
\<close>

definition series_mul :: "series \<Rightarrow> series \<Rightarrow> series" where
  "series_mul a b = zip (map fst a) (map2 fl_mul (map snd a) (map snd b))"

definition compute_strategy_returns :: "series \<Rightarrow> series \<Rightarrow> error + series" where
  "compute_strategy_returns price signal =
     (let ret = on_values (fillna (Fin 0)) (on_values pct_change price)
      in ebind (reindex signal (map fst ret)) (\<lambda>signal.
           let signal = on_values (fillna (Fin 0)) signal;
               strat_ret = series_mul ret signal
           in Inr strat_ret))"

text \<open>
  \<open>strategy_momentum\<close> (qqq_analysis.py) works on \<open>s = df.copy()\<close>; here \<open>s\<close> is the value of
  the copy. \<open>s.loc[mask, "position"] = 1\<close> writes 1 where the mask holds.
\<close>

definition loc_assign :: "bool list \<Rightarrow> fl \<Rightarrow> fl list \<Rightarrow> fl list" where
  "loc_assign msk v col = map2 (\<lambda>m x. if m then v else x) msk col"

definition strategy_momentum :: "frame \<Rightarrow> nat \<Rightarrow> fl \<Rightarrow> error + frame" where
  "strategy_momentum df lookback initial_capital =
     (let s = df in
      ebind (getitem s ''close'') (\<lambda>close.
      let s = setitem s ''ma'' (rolling_mean lookback close);
          s = setitem s ''position'' (replicate (length (index s)) (Fin 0)) in
      ebind (getitem s ''close'') (\<lambda>close.
      ebind (getitem s ''ma'') (\<lambda>ma.
      ebind (getitem s ''position'') (\<lambda>position.
      let s = setitem s ''position'' (loc_assign (map2 fl_gt close ma) (Fin 1) position) in
      ebind (getitem s ''position'') (\<lambda>position.
      ebind (getitem s ''return'') (\<lambda>return.
      let s = setitem s ''strategy_return'' (map2 fl_mul (shift1 position) return) in
      ebind (getitem s ''strategy_return'') (\<lambda>strategy_return.
      let s = setitem s ''strategy_return'' (fillna (Fin 0) strategy_return) in
      ebind (getitem s ''strategy_return'') (\<lambda>strategy_return.
      let s = setitem s ''strategy_equity'' (equity_curve strategy_return initial_capital)
      in Inr s)))))))))"

section \<open>The breadth signal (qqq_ta_momentum_compare.py)\<close>





section \<open>Dollar-cost averaging (qqq_analysis.py)\<close>








section \<open>The script qqq_analysis.py\<close>



section \<open>Objects and in-place writes\<close>

text \<open>
  For the question which object a function writes to, tables and series live in a store:
  an address is a position in it, a new object is appended, \<open>df[c] = v\<close> overwrites the
  object at the address of \<open>df\<close>. \<open>df.copy()\<close> and every pandas operation that returns a
  series (\<open>pct_change\<close>, \<open>fillna\<close>, \<open>reindex\<close>, the product) allocate.
\<close>

datatype obj = Frame frame | Series series

type_synonym store = "obj list"

definition alloc :: "store \<Rightarrow> obj \<Rightarrow> store \<times> nat" where
  "alloc st ob = (st @ [ob], length st)"

definition frame_at :: "store \<Rightarrow> nat \<Rightarrow> error + frame" where
  "frame_at st a =
     (if a < length st then (case st ! a of Frame f \<Rightarrow> Inr f | Series _ \<Rightarrow> Inl AttributeError)
      else Inl AttributeError)"

definition series_at :: "store \<Rightarrow> nat \<Rightarrow> error + series" where
  "series_at st a =
     (if a < length st then (case st ! a of Series s \<Rightarrow> Inr s | Frame _ \<Rightarrow> Inl AttributeError)
      else Inl AttributeError)"

definition st_getitem :: "store \<Rightarrow> nat \<Rightarrow> string \<Rightarrow> error + fl list" where
  "st_getitem st a c = ebind (frame_at st a) (\<lambda>f. getitem f c)"

definition st_setitem :: "store \<Rightarrow> nat \<Rightarrow> string \<Rightarrow> fl list \<Rightarrow> error + store" where
  "st_setitem st a c v = ebind (frame_at st a) (\<lambda>f. Inr (st[a := Frame (setitem f c v)]))"

definition df_copy :: "store \<Rightarrow> nat \<Rightarrow> error + store \<times> nat" where
  "df_copy st a = ebind (frame_at st a) (\<lambda>f. Inr (alloc st (Frame f)))"

definition st_series_op :: "store \<Rightarrow> nat \<Rightarrow> (series \<Rightarrow> error + series) \<Rightarrow> error + store \<times> nat" where
  "st_series_op st a f = ebind (series_at st a) (\<lambda>s. ebind (f s) (\<lambda>r. Inr (alloc st (Series r))))"

definition add_ma_st :: "store \<Rightarrow> nat \<Rightarrow> nat list \<Rightarrow> error + store \<times> nat" where
  "add_ma_st st df windows =
     ebind (frame_at st df) (\<lambda>f.
     if ''close'' \<notin> set (map fst (columns f)) then Inl ValueError
     else ebind (df_copy st df) (\<lambda>(st, df).
          ebind (st_getitem st df ''close'') (\<lambda>close.
          ebind (st_setitem st df ''close'' (to_numeric close)) (\<lambda>st.
          ebind (fold (\<lambda>w r. ebind r (\<lambda>st. ebind (st_getitem st df ''close'') (\<lambda>close.
                         st_setitem st df (ma_name w) (rolling_mean w close))))
                   windows (Inr st))
            (\<lambda>st. Inr (st, df))))))"

definition strategy_momentum_st :: "store \<Rightarrow> nat \<Rightarrow> nat \<Rightarrow> fl \<Rightarrow> error + store \<times> nat" where
  "strategy_momentum_st st df lookback initial_capital =
     ebind (df_copy st df) (\<lambda>(st, s).
     ebind (st_getitem st s ''close'') (\<lambda>close.
     ebind (st_setitem st s ''ma'' (rolling_mean lookback close)) (\<lambda>st.
     ebind (frame_at st s) (\<lambda>f.
     ebind (st_setitem st s ''position'' (replicate (length (index f)) (Fin 0))) (\<lambda>st.
     ebind (st_getitem st s ''close'') (\<lambda>close.
     ebind (st_getitem st s ''ma'') (\<lambda>ma.
     ebind (st_getitem st s ''position'') (\<lambda>position.
     ebind (st_setitem st s ''position'' (loc_assign (map2 fl_gt close ma) (Fin 1) position))
       (\<lambda>st.
     ebind (st_getitem st s ''position'') (\<lambda>position.
     ebind (st_getitem st s ''return'') (\<lambda>return.
     ebind (st_setitem st s ''strategy_return'' (map2 fl_mul (shift1 position) return)) (\<lambda>st.
     ebind (st_getitem st s ''strategy_return'') (\<lambda>strategy_return.
     ebind (st_setitem st s ''strategy_return'' (fillna (Fin 0) strategy_return)) (\<lambda>st.
     ebind (st_getitem st s ''strategy_return'') (\<lambda>strategy_return.
     ebind (st_setitem st s ''strategy_equity''
              (equity_curve strategy_return initial_capital)) (\<lambda>st.
       Inr (st, s)))))))))))))))))"

definition compute_strategy_returns_st :: "store \<Rightarrow> nat \<Rightarrow> nat \<Rightarrow> error + store \<times> nat" where
  "compute_strategy_returns_st st price signal =
     ebind (st_series_op st price (\<lambda>p. Inr (on_values pct_change p))) (\<lambda>(st, t).
     ebind (st_series_op st t (\<lambda>r. Inr (on_values (fillna (Fin 0)) r))) (\<lambda>(st, ret).
     ebind (series_at st ret) (\<lambda>r.
     ebind (st_series_op st signal (\<lambda>s. reindex s (map fst r))) (\<lambda>(st, t).
     ebind (st_series_op st t (\<lambda>s. Inr (on_values (fillna (Fin 0)) s))) (\<lambda>(st, signal).
     ebind (series_at st ret) (\<lambda>r.
     ebind (series_at st signal) (\<lambda>s.
       Inr (alloc st (Series (series_mul r s))))))))))"

section \<open>What the specification says, in its own words\<close>












text \<open>
  The drawdown series of a positive curve written over the reals, for the proofs: the
  running maximum \<open>m\<close> is carried along.
\<close>

fun ddr :: "real \<Rightarrow> real list \<Rightarrow> real list" where
  "ddr m [] = []"
| "ddr m (e # es) = (e / max m e - 1) # ddr (max m e) es"

section \<open>Properties of the growth curve\<close>

lemma nd_from:
  "0 < a \<Longrightarrow> non_decreasing (Fin a # cumprod_from (Fin a) (map (\<lambda>x. fl_add (Fin 1) x) (map Fin R)))
     \<longleftrightarrow> (\<forall>r\<in>set R. 0 \<le> r)"
proof (induction R arbitrary: a)
  case Nil
  then show ?case by simp
next
  case (Cons r R)
  show ?case
  proof (cases "0 \<le> r")
    case True
    with Cons.prems have pos: "0 < a * (1 + r)" by simp
    from True Cons.prems have "a \<le> a * (1 + r)" by (simp add: mult_le_cancel_left1)
    with Cons.IH [OF pos] True show ?thesis by simp
  next
    case False
    with Cons.prems have "\<not> a \<le> a * (1 + r)" by (simp add: mult_le_cancel_left1)
    with False show ?thesis by auto
  qed
qed

text \<open>
  C8 (as amended). For a series of finite returns whose first return is not negative (the
  scripts' own series start with the filled return 0), the curve \<open>(1 + R).cumprod()\<close>
  never falls if and only if every return is at least 0.
\<close>

theorem growth_curve_monotone_iff:
  assumes "R = [] \<or> 0 \<le> hd R"
  shows "non_decreasing (growth_curve (map Fin R)) \<longleftrightarrow> (\<forall>r\<in>set R. 0 \<le> r)"
proof (cases R)
  case Nil
  then show ?thesis by (simp add: growth_curve_def cumprod_def)
next
  case (Cons r0 R')
  with assms have r0: "0 \<le> r0" by simp
  then have pos: "0 < 1 + r0" by simp
  from nd_from [OF pos, of R'] r0 Cons show ?thesis
    by (simp add: growth_curve_def cumprod_def)
qed

theorem growth_curve_monotone_iff_witness:
  "([0, 1 / 10] = [] \<or> (0::real) \<le> hd [0, 1 / 10])
     \<and> non_decreasing (growth_curve (map Fin [0, 1 / 10]))"
  using growth_curve_monotone_iff [of "[0, 1 / 10]"] by simp

text \<open>
  C8 as stated fails: the returns \<open>-1/2, 0, 1/10\<close> give the curve \<open>1/2, 1/2, 11/20\<close>,
  which never falls, although the first return is negative.
\<close>

theorem growth_curve_monotone_iff_counterexample:
  "non_decreasing (growth_curve [Fin (- 1 / 2), Fin 0, Fin (1 / 10)])
     \<and> \<not> all_nonneg [Fin (- 1 / 2), Fin 0, Fin (1 / 10)]"
  by (simp add: growth_curve_def cumprod_def)

section \<open>Properties of the drawdown\<close>

lemma length_ddr: "length (ddr m E) = length E"
  by (induction E arbitrary: m) simp_all

lemma dd_from:
  "0 < m \<Longrightarrow> \<forall>x\<in>set E. 0 < x \<Longrightarrow>
   map2 (\<lambda>e m. fl_sub (fl_div e m) (Fin 1)) (map Fin E) (cummax_from (Fin m) (map Fin E))
     = map Fin (ddr m E)"
proof (induction E arbitrary: m)
  case Nil
  then show ?case by simp
next
  case (Cons e E)
  have mx: "fl_max (Fin m) (Fin e) = Fin (max m e)"
    by (simp add: fl_max_def max_def)
  from Cons.prems have "0 < max m e" by simp
  with Cons.IH [of "max m e"] Cons.prems mx show ?case
    by (simp add: fl_sub_def)
qed

lemma ddr_nonpos: "0 < m \<Longrightarrow> \<forall>x\<in>set E. 0 < x \<Longrightarrow> \<forall>d\<in>set (ddr m E). d \<le> 0"
proof (induction E arbitrary: m)
  case Nil
  then show ?case by simp
next
  case (Cons e E)
  from Cons.prems have "0 < max m e" by simp
  moreover from this have "e / max m e \<le> 1" by (simp add: divide_le_eq_1_pos)
  ultimately show ?case using Cons.IH [of "max m e"] Cons.prems by simp
qed

lemma ddr_zero_iff:
  "0 < m \<Longrightarrow> \<forall>x\<in>set E. 0 < x \<Longrightarrow> (\<forall>d\<in>set (ddr m E). d = 0) \<longleftrightarrow> sorted (m # E)"
proof (induction E arbitrary: m)
  case Nil
  then show ?case by simp
next
  case (Cons e E)
  from Cons.prems have pos: "0 < max m e" by simp
  have hd0: "e / max m e - 1 = 0 \<longleftrightarrow> m \<le> e" using Cons.prems pos by (auto simp: max_def)
  show ?case
  proof (cases "m \<le> e")
    case True
    then have "max m e = e" by simp
    have "sorted (m # e # E) \<longleftrightarrow> sorted (e # E)" using True by auto
    with Cons.IH [of e] Cons.prems hd0 True \<open>max m e = e\<close> show ?thesis by simp
  next
    case False
    with hd0 show ?thesis by auto
  qed
qed

lemma foldl_fl_min: "foldl fl_min (Fin y) (map Fin ys) = Fin (Min (set (y # ys)))"
proof (induction ys arbitrary: y)
  case Nil
  then show ?case by simp
next
  case (Cons z zs)
  have "fl_min (Fin y) (Fin z) = Fin (min y z)" by (simp add: fl_min_def min_def)
  moreover have "Min (insert (min y z) (set zs)) = min y (Min (insert z (set zs)))"
    by (cases "set zs = {}") (simp_all add: min.assoc)
  ultimately show ?case using Cons.IH [of "min y z"] by simp
qed

lemma series_min_Fin: "xs \<noteq> [] \<Longrightarrow> series_min (map Fin xs) = Fin (Min (set xs))"
  using foldl_fl_min by (cases xs) (simp_all add: series_min_def dropna_def)



text \<open>
  C3. For a non-empty curve of positive finite values, \<open>max_drawdown\<close> returns a finite
  value that is at most 0, and exactly 0 if and only if the curve never falls; a curve that
  never falls is its own running maximum and its drawdown series is 0 on every date.
\<close>

theorem max_drawdown_nonpositive:
  assumes "E \<noteq> []" and "\<forall>x\<in>set E. 0 < x"
  shows "\<exists>d. max_drawdown (map Fin E) = Fin d \<and> d \<le> 0 \<and> (d = 0 \<longleftrightarrow> sorted E)
           \<and> (sorted E \<longrightarrow> cummax (map Fin E) = map Fin E
                 \<and> drawdown (map Fin E) = replicate (length E) (Fin 0))"
proof -
  from assms obtain e es where E: "E = e # es" by (cases E) auto
  with assms have e: "0 < e" and es: "\<forall>x\<in>set es. 0 < x" by simp_all
  have cm: "cummax (Fin e # map Fin es) = Fin e # cummax_from (Fin e) (map Fin es)"
    by (simp add: cummax_def fl_max_def)
  have dd: "drawdown (map Fin E) = map Fin (0 # ddr e es)"
    using dd_from [OF e es] e by (simp add: drawdown_def E cm fl_sub_def)
  let ?D = "0 # ddr e es"
  have md: "max_drawdown (map Fin E) = Fin (Min (set ?D))"
    unfolding max_drawdown_def dd by (rule series_min_Fin) simp
  have np: "\<forall>d\<in>set ?D. d \<le> 0" using ddr_nonpos [OF e es] by simp
  have le: "Min (set ?D) \<le> 0" by simp
  have z: "(\<forall>d\<in>set ?D. d = 0) \<longleftrightarrow> sorted E"
    using ddr_zero_iff [OF e es] by (simp add: E)
  have "Min (set ?D) = 0 \<longleftrightarrow> (\<forall>d\<in>set ?D. d = 0)"
  proof
    assume m0: "Min (set ?D) = 0"
    show "\<forall>d\<in>set ?D. d = 0"
    proof
      fix d assume d: "d \<in> set ?D"
      then have "Min (set ?D) \<le> d" by (intro Min_le) simp_all
      moreover from np d have "d \<le> 0" by blast
      ultimately show "d = 0" using m0 by simp
    qed
  next
    assume a0: "\<forall>d\<in>set ?D. d = 0"
    have "Min (set ?D) \<in> set ?D" by (intro Min_in) simp_all
    with a0 show "Min (set ?D) = 0" by blast
  qed
  with z have iff: "Min (set ?D) = 0 \<longleftrightarrow> sorted E" by simp
  have rt: "cummax (map Fin E) = map Fin E \<and> drawdown (map Fin E) = replicate (length E) (Fin 0)"
    if s: "sorted E"
  proof -
    from s z have a0: "\<forall>d\<in>set ?D. d = 0" by simp
    have len: "length ?D = length E" by (simp add: E length_ddr)
    from a0 have "replicate (length ?D) 0 = ?D" by (rule replicate_length_same)
    then have D: "?D = replicate (length E) 0" unfolding len by (rule sym)
    have d0: "drawdown (map Fin E) = replicate (length E) (Fin 0)"
      unfolding dd D by simp
    have "cummax_from (Fin m) (map Fin xs) = map Fin xs" if "sorted (m # xs)" for m xs
      using that by (induction xs arbitrary: m) (auto simp: fl_max_def)
    with s have "cummax (map Fin E) = map Fin E" by (simp add: E cm)
    with d0 show ?thesis by simp
  qed
  from md le iff rt show ?thesis by blast
qed

theorem max_drawdown_nonpositive_witness:
  "[100, 110, 110 :: real] \<noteq> [] \<and> list_all (\<lambda>x. 0 < x) [100, 110, 110 :: real]
     \<and> max_drawdown (map Fin [100, 110, 110]) = Fin 0
     \<and> drawdown (map Fin [100, 110, 110]) = [Fin 0, Fin 0, Fin 0]"
  using max_drawdown_nonpositive [of "[100, 110, 110]"] by auto

section \<open>Tables, columns and the error monad\<close>

lemma ebind_simps [simp]: "ebind (Inl e) f = Inl e" "ebind (Inr v) f = f v"
  by (simp_all add: ebind_def)

lemma getitem_setitem [simp]:
  "getitem (setitem df c v) c' = (if c' = c then Inr v else getitem df c')"
  by (simp add: getitem_def setitem_def update_conv')

lemma index_setitem [simp]: "index (setitem df c v) = index df"
  by (simp add: setitem_def)




lemma length_shift1 [simp]: "length (shift1 xs) = length xs"
  by (simp add: shift1_def)


lemma length_pct_change [simp]: "length (pct_change xs) = length xs"
  by (simp add: pct_change_def)

lemma length_fillna [simp]: "length (fillna v xs) = length xs"
  by (simp add: fillna_def)

lemma length_rolling_mean [simp]: "length (rolling_mean w xs) = length xs"
  by (simp add: rolling_mean_def)

lemma length_above [simp]: "length (above a b) = min (length a) (length b)"
  by (simp add: above_def)


section \<open>Moving average and crossover signal\<close>





lemma strategy_momentum_columns:
  assumes c: "getitem df ''close'' = Inr close" and r: "getitem df ''return'' = Inr rs"
  shows "\<exists>s. strategy_momentum df lb cap = Inr s
           \<and> index s = index df
           \<and> getitem s ''close'' = Inr close
           \<and> getitem s ''return'' = Inr rs
           \<and> getitem s ''ma'' = Inr (rolling_mean lb close)
           \<and> getitem s ''position'' =
               Inr (loc_assign (map2 fl_gt close (rolling_mean lb close)) (Fin 1)
                      (replicate (length (index df)) (Fin 0)))
           \<and> getitem s ''strategy_return'' =
               Inr (fillna (Fin 0) (map2 fl_mul
                      (shift1 (loc_assign (map2 fl_gt close (rolling_mean lb close)) (Fin 1)
                                 (replicate (length (index df)) (Fin 0)))) rs))"
  using c r by (simp add: strategy_momentum_def Let_def)





section \<open>Strategy returns\<close>






text \<open>
  C1. The claim asks every strategy-return function for \<open>S[t] = P[t-1] * R[t]\<close>.
  \<open>compute_strategy_returns\<close> multiplies the return of day \<open>t\<close> by the signal of the same
  day: with prices 100, 110, 121 and the signal 0, 1, 0 it returns 0, 1/10, 0, where the
  lagged rule gives 0, 0, 1/10.
\<close>

theorem compute_strategy_returns_same_day:
  "compute_strategy_returns
     [((2024, 1, 2), Fin 100), ((2024, 1, 3), Fin 110), ((2024, 1, 4), Fin 121)]
     [((2024, 1, 2), Fin 0), ((2024, 1, 3), Fin 1), ((2024, 1, 4), Fin 0)]
   = Inr [((2024, 1, 2), Fin 0), ((2024, 1, 3), Fin (1 / 10)), ((2024, 1, 4), Fin 0)]"
  by (simp add: compute_strategy_returns_def on_values_def pct_change_def shift1_def
        fillna_def reindex_def series_mul_def fl_sub_def)



section \<open>Sharpe ratio on a constant series\<close>

text \<open>
  C2. On the constant series 1/2, 1/2 the deviation is 0 and the mean is not:
  \<open>sharpe_ratio\<close> divides and returns plus infinity, a number, where the claim asks for
  an undefined state. \<open>summarize_performance\<close> guards the division with
  \<open>daily_ret.std() > 0\<close> and yields its \<open>nan\<close> there.
\<close>

theorem sharpe_ratio_zero_variance:
  "sharpe_ratio [Fin (1 / 2), Fin (1 / 2)] 0 252 = Inr PInf
   \<and> (\<exists>r. summarize_performance [Fin (1 / 2), Fin (1 / 2)] = Inr r \<and> sharpe r = NaN)"
proof -
  have m: "series_mean [Fin (1 / 2), Fin (1 / 2)] = Fin (1 / 2)"
    by (simp add: series_mean_def dropna_def fl_sum_def)
  have s: "series_std [Fin (1 / 2), Fin (1 / 2)] = Fin 0"
    by (simp add: series_std_def dropna_def fl_sum_def fl_sub_def)
  have a: "sharpe_ratio [Fin (1 / 2), Fin (1 / 2)] 0 252 = Inr PInf"
    by (simp add: sharpe_ratio_def fl_sub_def m s)
  have e: "equity_curve [Fin (1 / 2), Fin (1 / 2)] (Fin 100000) = [Fin 150000, Fin 225000]"
    by (simp add: equity_curve_def growth_curve_def cumprod_def)
  have "\<exists>r. summarize_performance [Fin (1 / 2), Fin (1 / 2)] = Inr r \<and> sharpe r = NaN"
    by (simp add: summarize_performance_def Let_def e s fl_gt_def)
  with a show ?thesis by (rule conjI)
qed

section \<open>Dollar-cost averaging\<close>













section \<open>Which objects a call writes to\<close>

lemma frame_at_new: "frame_at (st @ [Frame f]) (length st) = Inr f"
  by (simp add: frame_at_def)

lemma st_getitem_new: "st_getitem (st @ [Frame f]) (length st) c = getitem f c"
  by (simp add: st_getitem_def frame_at_new)

lemma st_setitem_new:
  "st_setitem (st @ [Frame f]) (length st) c v = Inr (st @ [Frame (setitem f c v)])"
  by (simp add: st_setitem_def frame_at_new)

lemma df_copy_new: "frame_at st a = Inr f \<Longrightarrow> df_copy st a = Inr (st @ [Frame f], length st)"
  by (simp add: df_copy_def alloc_def)

lemma strategy_momentum_st_eq:
  assumes "frame_at st df = Inr f"
  shows "strategy_momentum_st st df lookback capital =
           ebind (strategy_momentum f lookback capital) (\<lambda>r. Inr (st @ [Frame r], length st))"
  by (cases "getitem f ''close''"; cases "getitem f ''return''")
     (simp_all add: strategy_momentum_st_def strategy_momentum_def df_copy_new [OF assms]
        st_getitem_new st_setitem_new frame_at_new Let_def)

lemma add_ma_fold_st:
  "fold (\<lambda>w r. ebind r (\<lambda>st'. ebind (st_getitem st' (length st) ''close'') (\<lambda>close.
            st_setitem st' (length st) (ma_name w) (rolling_mean w close))))
     ws (ebind r0 (\<lambda>g. Inr (st @ [Frame g])))
   = ebind (fold (\<lambda>w r. ebind r (\<lambda>df. ebind (getitem df ''close'') (\<lambda>close.
                   Inr (setitem df (ma_name w) (rolling_mean w close))))) ws r0)
       (\<lambda>g. Inr (st @ [Frame g]))"
proof (induction ws arbitrary: r0)
  case Nil
  show ?case by simp
next
  case (Cons w ws)
  let ?stepP = "\<lambda>w r. ebind r (\<lambda>df. ebind (getitem df ''close'') (\<lambda>close.
                   Inr (setitem df (ma_name w) (rolling_mean w close))))"
  have step: "ebind (ebind r0 (\<lambda>g. Inr (st @ [Frame g])))
          (\<lambda>st'. ebind (st_getitem st' (length st) ''close'') (\<lambda>close.
            st_setitem st' (length st) (ma_name w) (rolling_mean w close)))
        = ebind (?stepP w r0) (\<lambda>g. Inr (st @ [Frame g]))"
  proof (cases r0)
    case (Inl e)
    then show ?thesis by simp
  next
    case (Inr g)
    then show ?thesis
      by (cases "getitem g ''close''") (simp_all add: st_getitem_new st_setitem_new)
  qed
  show ?case
    using Cons.IH [of "?stepP w r0"] by (simp add: step)
qed

lemma add_ma_st_eq:
  assumes "frame_at st df = Inr f"
  shows "add_ma_st st df windows =
           ebind (add_ma f windows) (\<lambda>r. Inr (st @ [Frame r], length st))"
proof (cases "''close'' \<in> set (map fst (columns f))")
  case False
  then show ?thesis by (simp add: add_ma_st_def add_ma_def assms)
next
  case True
  show ?thesis
  proof (cases "getitem f ''close''")
    case (Inl e)
    with True show ?thesis
      by (simp add: add_ma_st_def add_ma_def assms df_copy_new [OF assms] st_getitem_new)
  next
    case (Inr close)
    let ?g = "setitem f ''close'' (to_numeric close)"
    note F = add_ma_fold_st [of st windows "Inr ?g", simplified]
    have E: "ebind (ebind m (\<lambda>g. Inr (st @ [Frame g]))) (\<lambda>st'. Inr (st', length st))
           = ebind m (\<lambda>r. Inr (st @ [Frame r], length st))" for m :: "error + frame"
      by (cases m) simp_all
    from True Inr show ?thesis
      by (simp add: add_ma_st_def add_ma_def assms df_copy_new [OF assms] st_getitem_new
            st_setitem_new F E)
  qed
qed

lemma series_at_app:
  "series_at (st @ xs) a =
     (if a < length st then series_at st a else series_at xs (a - length st))"
  by (auto simp: series_at_def nth_append)

lemma series_at_Cons:
  "series_at (Series s # xs) 0 = Inr s"
  "0 < n \<Longrightarrow> series_at (x # xs) n = series_at xs (n - 1)"
  by (auto simp: series_at_def)

lemma compute_strategy_returns_st_eq:
  assumes p: "series_at st price = Inr p" and sg: "series_at st signal = Inr sg"
  shows "\<exists>tmp. compute_strategy_returns_st st price signal =
           ebind (compute_strategy_returns p sg)
             (\<lambda>r. Inr (st @ tmp @ [Series r], length st + length tmp))"
proof -
  let ?t = "on_values pct_change p"
  let ?ret = "on_values (fillna (Fin 0)) ?t"
  from p have lp: "price < length st" by (simp add: series_at_def split: if_splits)
  from sg have ls: "signal < length st" by (simp add: series_at_def split: if_splits)
  show ?thesis
  proof (cases "reindex sg (map fst ?ret)")
    case (Inl e)
    have "compute_strategy_returns_st st price signal = Inl e"
      by (simp add: compute_strategy_returns_st_def st_series_op_def alloc_def
            series_at_app series_at_Cons p sg lp ls Inl)
    moreover have "compute_strategy_returns p sg = Inl e"
      by (simp add: compute_strategy_returns_def Let_def Inl)
    ultimately show ?thesis by simp
  next
    case (Inr s1)
    let ?s2 = "on_values (fillna (Fin 0)) s1"
    have "compute_strategy_returns_st st price signal =
            Inr (st @ [Series ?t, Series ?ret, Series s1, Series ?s2,
                       Series (series_mul ?ret ?s2)], length st + 4)"
      by (simp add: compute_strategy_returns_st_def st_series_op_def alloc_def
            series_at_app series_at_Cons p sg lp ls Inr)
    moreover have "compute_strategy_returns p sg = Inr (series_mul ?ret ?s2)"
      by (simp add: compute_strategy_returns_def Let_def Inr)
    ultimately have "compute_strategy_returns_st st price signal =
           ebind (compute_strategy_returns p sg)
             (\<lambda>r. Inr (st @ [Series ?t, Series ?ret, Series s1, Series ?s2] @ [Series r],
                        length st + length [Series ?t, Series ?ret, Series s1, Series ?s2]))"
      by simp
    then show ?thesis by (rule exI)
  qed
qed

text \<open>
  C9. Called on objects of a store, \<open>add_ma\<close>, \<open>strategy_momentum\<close> and
  \<open>compute_strategy_returns\<close> compute what they compute on the values, and leave a store
  that is the old store with new objects appended: every object that was there before the
  call, the input table or series among them, is unchanged in every column and value, and
  the result is one of the new objects.
\<close>

theorem no_in_place_mutation:
  assumes "frame_at st df = Inr f"
    and "series_at st price = Inr p"
    and "series_at st signal = Inr sg"
  shows "add_ma_st st df windows =
           ebind (add_ma f windows) (\<lambda>r. Inr (st @ [Frame r], length st))
       \<and> strategy_momentum_st st df lookback capital =
           ebind (strategy_momentum f lookback capital) (\<lambda>r. Inr (st @ [Frame r], length st))
       \<and> (\<exists>tmp. compute_strategy_returns_st st price signal =
             ebind (compute_strategy_returns p sg)
               (\<lambda>r. Inr (st @ tmp @ [Series r], length st + length tmp)))
       \<and> (\<forall>st' a. add_ma_st st df windows = Inr (st', a)
                  \<or> strategy_momentum_st st df lookback capital = Inr (st', a)
                  \<or> compute_strategy_returns_st st price signal = Inr (st', a)
            \<longrightarrow> take (length st) st' = st \<and> length st \<le> a \<and> a < length st')"
proof -
  note A = add_ma_st_eq [OF assms(1), of windows]
  note M = strategy_momentum_st_eq [OF assms(1), of lookback capital]
  from compute_strategy_returns_st_eq [OF assms(2,3)] obtain tmp where
    C: "compute_strategy_returns_st st price signal =
             ebind (compute_strategy_returns p sg)
               (\<lambda>r. Inr (st @ tmp @ [Series r], length st + length tmp))" ..
  have FA: "take (length st) st' = st \<and> length st \<le> a \<and> a < length st'"
    if "add_ma_st st df windows = Inr (st', a)" for st' a
    using A that by (cases "add_ma f windows") auto
  have FM: "take (length st) st' = st \<and> length st \<le> a \<and> a < length st'"
    if "strategy_momentum_st st df lookback capital = Inr (st', a)" for st' a
    using M that by (cases "strategy_momentum f lookback capital") auto
  have FC: "take (length st) st' = st \<and> length st \<le> a \<and> a < length st'"
    if "compute_strategy_returns_st st price signal = Inr (st', a)" for st' a
    using C that by (cases "compute_strategy_returns p sg") auto
  from C have C': "\<exists>tmp. compute_strategy_returns_st st price signal =
             ebind (compute_strategy_returns p sg)
               (\<lambda>r. Inr (st @ tmp @ [Series r], length st + length tmp))" ..
  from FA FM FC have F: "\<forall>st' a. add_ma_st st df windows = Inr (st', a)
                  \<or> strategy_momentum_st st df lookback capital = Inr (st', a)
                  \<or> compute_strategy_returns_st st price signal = Inr (st', a)
            \<longrightarrow> take (length st) st' = st \<and> length st \<le> a \<and> a < length st'"
    by blast
  from A M C' F show ?thesis by (intro conjI)
qed

theorem no_in_place_mutation_witness:
  "frame_at [Frame \<lparr>index = [(2024, 3, 28), (2024, 3, 29)],
                    columns = [(''close'', [Fin 90, Fin 100]), (''return'', [NaN, Fin (1 / 9)])]\<rparr>,
             Series [((2024, 3, 28), Fin 90), ((2024, 3, 29), Fin 100)],
             Series [((2024, 3, 28), Fin 1), ((2024, 3, 29), Fin 1)]] 0
     = Inr \<lparr>index = [(2024, 3, 28), (2024, 3, 29)],
            columns = [(''close'', [Fin 90, Fin 100]), (''return'', [NaN, Fin (1 / 9)])]\<rparr>
   \<and> (\<exists>st' a. strategy_momentum_st
          [Frame \<lparr>index = [(2024, 3, 28), (2024, 3, 29)],
                  columns = [(''close'', [Fin 90, Fin 100]), (''return'', [NaN, Fin (1 / 9)])]\<rparr>,
           Series [((2024, 3, 28), Fin 90), ((2024, 3, 29), Fin 100)],
           Series [((2024, 3, 28), Fin 1), ((2024, 3, 29), Fin 1)]] 0 50 (Fin 100000)
          = Inr (st', a)
        \<and> a = 3
        \<and> take 3 st' =
            [Frame \<lparr>index = [(2024, 3, 28), (2024, 3, 29)],
                    columns = [(''close'', [Fin 90, Fin 100]), (''return'', [NaN, Fin (1 / 9)])]\<rparr>,
             Series [((2024, 3, 28), Fin 90), ((2024, 3, 29), Fin 100)],
             Series [((2024, 3, 28), Fin 1), ((2024, 3, 29), Fin 1)]])"
proof -
  let ?f = "\<lparr>index = [(2024, 3, 28), (2024, 3, 29) :: date],
              columns = [(''close'', [Fin 90, Fin 100]), (''return'', [NaN, Fin (1 / 9)])]\<rparr>"
  let ?p = "[((2024, 3, 28), Fin 90), ((2024, 3, 29), Fin 100) :: date \<times> fl]"
  let ?sg = "[((2024, 3, 28), Fin 1), ((2024, 3, 29), Fin 1) :: date \<times> fl]"
  let ?st = "[Frame ?f, Series ?p, Series ?sg]"
  have h1: "frame_at ?st 0 = Inr ?f" by (simp add: frame_at_def)
  have h2: "series_at ?st 1 = Inr ?p" by (simp add: series_at_def)
  have h3: "series_at ?st 2 = Inr ?sg" by (simp add: series_at_def)
  note T = no_in_place_mutation [OF h1 h2 h3, of "[50]" 50 "Fin 100000"]
  note M = T [THEN conjunct2, THEN conjunct1]
  have c: "getitem ?f ''close'' = Inr [Fin 90, Fin 100]" by (simp add: getitem_def)
  have r: "getitem ?f ''return'' = Inr [NaN, Fin (1 / 9)]" by (simp add: getitem_def)
  from strategy_momentum_columns [OF c r, of 50 "Fin 100000"] obtain s where
    s: "strategy_momentum ?f 50 (Fin 100000) = Inr s" by (elim exE conjE)
  have "strategy_momentum_st ?st 0 50 (Fin 100000) = Inr (?st @ [Frame s], 3)"
    unfolding M s by simp
  then have "strategy_momentum_st ?st 0 50 (Fin 100000) = Inr (?st @ [Frame s], 3)
      \<and> (3::nat) = 3 \<and> take 3 (?st @ [Frame s]) = ?st"
    by simp
  then have "\<exists>st' a. strategy_momentum_st ?st 0 50 (Fin 100000) = Inr (st', a)
      \<and> a = 3 \<and> take 3 st' = ?st"
    by (intro exI)
  with h1 show ?thesis by (intro conjI)
qed

section \<open>The breadth signal\<close>

















end
